theory Spec2Isabelle
  imports Main "HOL-Library.AList" "HOL-Library.Multiset"
begin

section \<open>Englytics: the dictionary component as state transformers\<close>

text \<open>
  The component \<open>DictionaryApp\<close> exists in the repository in two variants: the one of
  \<open>src/App.tsx\<close> (translation through LibreTranslate, no cache) and the one that follows the
  project description in \<open>README.md\<close> (translation through MyMemory, with the 24 hour
  translation cache and the translation of definitions and examples). \<open>fetchRelatedWords\<close>, \<open>addToHistory\<close>,
  \<open>toggleFavorite\<close>, the failure branch of \<open>fetchDefinitions\<close> and the guard of
  \<open>handleSearch\<close> read the same in both. \<open>translateText\<close> and
  \<open>translateDefinitionsAndExamples\<close> exist in the second variant only and are modelled
  from it.

  JavaScript strings are modelled as \<open>string\<close> and restricted to ASCII; timestamps
  (\<open>Date.now()\<close>, milliseconds) and Datamuse scores are integers.
\<close>

subsection \<open>Strings\<close>

definition toLowerCase_char :: "char \<Rightarrow> char" where
  "toLowerCase_char c =
     (let n = (of_char c :: nat)
      in if 65 \<le> n \<and> n \<le> 90 then char_of (n + 32) else c)"

definition toLowerCase :: "string \<Rightarrow> string" where
  "toLowerCase s = map toLowerCase_char s"

definition isWhiteSpace :: "char \<Rightarrow> bool" where
  "isWhiteSpace c = ((of_char c :: nat) \<in> {9, 10, 11, 12, 13, 32})"

definition trim :: "string \<Rightarrow> string" where
  "trim s = rev (dropWhile isWhiteSpace (rev (dropWhile isWhiteSpace s)))"

text \<open>The decimal digits of an index, as a template literal prints it.\<close>

fun string_of_nat :: "nat \<Rightarrow> string" where
  "string_of_nat n =
     (if n < 10 then [''0123456789'' ! n]
      else string_of_nat (n div 10) @ [''0123456789'' ! (n mod 10)])"

declare string_of_nat.simps [simp del]

subsection \<open>Data\<close>

text \<open>
  The types of the component. Field names that several types share in the source carry
  the name of their type here: \<open>word\<close> and \<open>definitions\<close> of a dictionary entry are
  \<open>entry_word\<close> and \<open>meaning_definitions\<close>, the state variable \<open>word\<close> is
  \<open>current_word\<close>, and \<open>definition\<close>, \<open>text\<close> are \<open>definition_text\<close>,
  \<open>entry_text\<close>.
\<close>

record Definition =
  definition_text :: string
  example :: "string option"

record Meaning =
  partOfSpeech :: string
  meaning_definitions :: "Definition list"

record DictionaryResponse =
  entry_word :: string
  meanings :: "Meaning list"

record RelatedWord =
  word :: string
  score :: int

datatype Language = En | PtBR

record cache_entry =
  entry_text :: string
  timestamp :: int

type_synonym TranslationCache = "string \<rightharpoonup> cache_entry"

text \<open>The part of \<open>localStorage\<close> that the modelled callbacks write.\<close>

record storage =
  dictionaryFavorites :: "string list option"
  dictionaryHistory :: "string list option"
  translationCache_item :: "TranslationCache option"

text \<open>The state variables of \<open>DictionaryApp\<close> that the modelled callbacks read or set.\<close>

record app =
  current_word :: string
  definitions :: "DictionaryResponse list"
  relatedWords :: "RelatedWord list"
  translation :: "(string \<times> string) option"
  favorites :: "string list"
  history :: "string list"
  language :: Language
  loading :: bool
  error :: "string option"
  translationCache :: TranslationCache
  definitionTranslations :: "(string \<times> string) list"
  exampleTranslations :: "(string \<times> string) list"
  localStorage :: storage

subsection \<open>The outside world\<close>

text \<open>
  A \<open>fetch\<close> either rejects (with the message of the error) or resolves with a response;
  \<open>response.json()\<close> either rejects (the body is not JSON of the expected shape) or gives
  the parsed body. What the three services answer is a parameter of the model, and so are
  the two readings of the clock inside \<open>translateText\<close> and whether \<open>localStorage.setItem\<close>
  succeeds.
\<close>

datatype 'a promise = Rejected string | Resolved 'a

datatype 'a body = Malformed string | Json 'a

record 'a response =
  ok :: bool
  status :: nat
  json :: "'a body"

record response_data =
  translatedText :: "string option"

text \<open>
  The body of a MyMemory answer as \<open>translateText\<close> reads it: \<open>null\<close>, or a value
  whose \<open>responseData\<close> is missing or falsy (\<open>Data None\<close>) or present, with a
  \<open>translatedText\<close> that is missing (\<open>None\<close>) or a string.
\<close>

datatype mymemory_json = Null | Data "response_data option"

record env =
  dictionaryapi :: "string \<Rightarrow> DictionaryResponse list response promise"
  datamuse :: "string \<Rightarrow> string \<Rightarrow> RelatedWord list response promise"
  mymemory_get :: "mymemory_json response promise"
  mymemory_translate :: "string \<Rightarrow> mymemory_json response promise"
  now_lookup :: int
  now_store :: int
  setItem_succeeds :: bool

text \<open>What a callback does besides setting state: the requests it sends and what it logs.\<close>

datatype request =
    GetDictionary string
  | GetDatamuse string string
  | GetMyMemory
  | GetMyMemoryTranslate string

datatype event = Fetch request | ConsoleError string

text \<open>
  Every callback below takes the state \<open>c\<close> captured by the render that created it (what
  it reads) and the state \<open>s\<close> that its setters act on, and returns the new state with
  the events. A callback started from the user interface runs with \<open>c = s\<close>.
\<close>

subsection \<open>History and favorites\<close>

text \<open>
  \<^verbatim>\<open>
  const newHistory = [
    word.toLowerCase(),
    ...history.filter(w => w.toLowerCase() !== word.toLowerCase())
  ].slice(0, 15);
  setHistory(newHistory);
  try { localStorage.setItem('dictionaryHistory', JSON.stringify(newHistory)); }
  catch (err) { console.error('Error saving history:', err); }
  \<close>
\<close>

definition newHistory :: "string list \<Rightarrow> string \<Rightarrow> string list" where
  "newHistory history' word' =
     take 15 (toLowerCase word' # filter (\<lambda>w. toLowerCase w \<noteq> toLowerCase word') history')"

definition addToHistory :: "env \<Rightarrow> app \<Rightarrow> app \<Rightarrow> string \<Rightarrow> app \<times> event list" where
  "addToHistory e c s word' =
     (let h = newHistory (history c) word';
          s1 = s\<lparr>history := h\<rparr>
      in if setItem_succeeds e
         then (s1\<lparr>localStorage := (localStorage s1)\<lparr>dictionaryHistory := Some h\<rparr>\<rparr>, [])
         else (s1, [ConsoleError ''Error saving history:'']))"

text \<open>
  \<^verbatim>\<open>
  const newFavorites = favorites.includes(word)
    ? favorites.filter(w => w !== word)
    : [...favorites, word];
  setFavorites(newFavorites);
  try { localStorage.setItem('dictionaryFavorites', JSON.stringify(newFavorites)); }
  catch (err) { console.error('Error saving favorites:', err); }
  \<close>
\<close>

definition newFavorites :: "string list \<Rightarrow> string \<Rightarrow> string list" where
  "newFavorites favorites' word' =
     (if word' \<in> set favorites' then filter (\<lambda>w. w \<noteq> word') favorites'
      else favorites' @ [word'])"

definition toggleFavorite :: "env \<Rightarrow> app \<Rightarrow> app \<Rightarrow> string \<Rightarrow> app \<times> event list" where
  "toggleFavorite e c s word' =
     (let f = newFavorites (favorites c) word';
          s1 = s\<lparr>favorites := f\<rparr>
      in if setItem_succeeds e
         then (s1\<lparr>localStorage := (localStorage s1)\<lparr>dictionaryFavorites := Some f\<rparr>\<rparr>, [])
         else (s1, [ConsoleError ''Error saving favorites:'']))"

subsection \<open>Related words\<close>

text \<open>
  \<open>Array.prototype.findIndex\<close>, \<open>filter\<close> with the index and the array passed to the
  callback, and \<open>sort\<close> with a comparator (a stable sort since ES2019; an element goes
  before the first one that the comparator does not put before it).
\<close>

fun findIndex_from :: "('a \<Rightarrow> bool) \<Rightarrow> nat \<Rightarrow> 'a list \<Rightarrow> int" where
  "findIndex_from p i [] = - 1"
| "findIndex_from p i (x # xs) = (if p x then int i else findIndex_from p (Suc i) xs)"

definition findIndex :: "('a \<Rightarrow> bool) \<Rightarrow> 'a list \<Rightarrow> int" where
  "findIndex p a = findIndex_from p 0 a"

definition filter_indexed :: "('a \<Rightarrow> nat \<Rightarrow> 'a list \<Rightarrow> bool) \<Rightarrow> 'a list \<Rightarrow> 'a list" where
  "filter_indexed f a = map snd (filter (\<lambda>(i, v). f v i a) (enumerate 0 a))"

fun insert_sorted :: "('a \<Rightarrow> 'a \<Rightarrow> int) \<Rightarrow> 'a \<Rightarrow> 'a list \<Rightarrow> 'a list" where
  "insert_sorted cmp x [] = [x]"
| "insert_sorted cmp x (y # ys) =
     (if cmp x y \<le> 0 then x # y # ys else y # insert_sorted cmp x ys)"

definition sort_with :: "('a \<Rightarrow> 'a \<Rightarrow> int) \<Rightarrow> 'a list \<Rightarrow> 'a list" where
  "sort_with cmp a = foldr (insert_sorted cmp) a []"

text \<open>
  \<^verbatim>\<open>
  const combined = [...synonyms, ...triggers, ...adjectives]
    .filter((v, i, a) => a.findIndex(t => t.word === v.word) === i)
    .sort((a, b) => b.score - a.score)
    .slice(0, 30);
  \<close>
\<close>

definition combined :: "RelatedWord list \<Rightarrow> RelatedWord list \<Rightarrow> RelatedWord list \<Rightarrow> RelatedWord list" where
  "combined synonyms triggers adjectives =
     take 30
       (sort_with (\<lambda>a b. score b - score a)
         (filter_indexed (\<lambda>v i a. findIndex (\<lambda>t. word t = word v) a = int i)
           (synonyms @ triggers @ adjectives)))"

text \<open>\<open>fetch(url).then(res => res.json())\<close>: the status of the response is not looked at.\<close>

definition fetch_json :: "'a response promise \<Rightarrow> 'a option" where
  "fetch_json p =
     (case p of
        Rejected msg \<Rightarrow> None
      | Resolved res \<Rightarrow> (case json res of Malformed msg \<Rightarrow> None | Json v \<Rightarrow> Some v))"

text \<open>
  \<^verbatim>\<open>
  try {
    const [synonyms, triggers, adjectives] = await Promise.all([...]);
    const combined = ...;
    setRelatedWords(combined);
  } catch (err) {
    console.error('Failed to load related words:', err);
  }
  \<close>
  The three requests are sent before any answer is awaited.
\<close>

definition fetchRelatedWords :: "env \<Rightarrow> app \<Rightarrow> string \<Rightarrow> app \<times> event list" where
  "fetchRelatedWords e s word' =
     (let sent = [Fetch (GetDatamuse ''rel_syn'' word'), Fetch (GetDatamuse ''rel_trg'' word'),
                  Fetch (GetDatamuse ''rel_jjb'' word')]
      in case (fetch_json (datamuse e ''rel_syn'' word'),
               fetch_json (datamuse e ''rel_trg'' word'),
               fetch_json (datamuse e ''rel_jjb'' word')) of
           (Some synonyms, Some triggers, Some adjectives) \<Rightarrow>
             (s\<lparr>relatedWords := combined synonyms triggers adjectives\<rparr>, sent)
         | _ \<Rightarrow> (s, sent @ [ConsoleError ''Failed to load related words:'']))"

text \<open>
  The merge policy in the words of the specification: keep the first occurrence of every
  word text.
\<close>

fun keep_first :: "string list \<Rightarrow> RelatedWord list \<Rightarrow> RelatedWord list" where
  "keep_first seen [] = []"
| "keep_first seen (r # rs) =
     (if word r \<in> set seen then keep_first seen rs else r # keep_first (word r # seen) rs)"

subsection \<open>Translation with the cache\<close>

text \<open>
  The two uses of the cache inside \<open>translateText\<close>:
  \<^verbatim>\<open>
  const cached = translationCache[key];
  // Cache valid for 24 hours
  if (cached && Date.now() - cached.timestamp < 24 * 60 * 60 * 1000) {
    return cached.text;
  }
  ...
  const newCache = {
    ...translationCache,
    [key]: { text: translatedText, timestamp: Date.now() }
  };
  \<close>
\<close>

definition cached_text :: "TranslationCache \<Rightarrow> string \<Rightarrow> int \<Rightarrow> string option" where
  "cached_text cache key now =
     (case cache key of
        None \<Rightarrow> None
      | Some cached \<Rightarrow>
          if now - timestamp cached < 24 * 60 * 60 * 1000 then Some (entry_text cached) else None)"

definition newCache :: "TranslationCache \<Rightarrow> string \<Rightarrow> string \<Rightarrow> int \<Rightarrow> TranslationCache" where
  "newCache cache key translatedText' now =
     cache(key \<mapsto> \<lparr>entry_text = translatedText', timestamp = now\<rparr>)"

text \<open>
  \<open>translateText(text, cacheKey)\<close>, in two parts: the \<open>try\<close> block with the final
  \<open>return text\<close>, then the whole function.
  \<^verbatim>\<open>
  try {
    const response = await fetch('https://api.mymemory.translated.net/get', {...});
    if (response.ok) {
      const url = new URL('https://api.mymemory.translated.net/get');
      url.searchParams.append('q', text);
      url.searchParams.append('langpair', 'en|pt-br');
      const translationResponse = await fetch(url.toString());
      const data = await translationResponse.json();
      if (data.responseData && data.responseData.translatedText) {
        const translatedText = data.responseData.translatedText;
        const newCache = {...};
        setTranslationCache(newCache);
        try { localStorage.setItem('translationCache', JSON.stringify(newCache)); }
        catch (err) { console.error('Error saving translation cache:', err); }
        return translatedText;
      }
    }
  } catch (err) {
    console.error('Translation failed:', err);
  }
  return text; // Return original text if translation fails
  \<close>
  The first request goes to the service without a query and only its status is looked at;
  the second one carries the text, and its status is not looked at.
\<close>

definition request_translation ::
  "env \<Rightarrow> TranslationCache \<Rightarrow> app \<Rightarrow> string \<Rightarrow> string \<Rightarrow> string \<times> app \<times> event list" where
  "request_translation e cache s text' key =
     (let sent1 = [Fetch GetMyMemory];
          sent2 = [Fetch GetMyMemory, Fetch (GetMyMemoryTranslate text')];
          failed = [ConsoleError ''Translation failed:'']
      in case mymemory_get e of
           Rejected msg \<Rightarrow> (text', s, sent1 @ failed)
         | Resolved response \<Rightarrow>
             if ok response then
               (case mymemory_translate e text' of
                  Rejected msg \<Rightarrow> (text', s, sent2 @ failed)
                | Resolved translationResponse \<Rightarrow>
                    (case json translationResponse of
                       Malformed msg \<Rightarrow> (text', s, sent2 @ failed)
                     | Json Null \<Rightarrow> (text', s, sent2 @ failed)
                     | Json (Data None) \<Rightarrow> (text', s, sent2)
                     | Json (Data (Some rd)) \<Rightarrow>
                         (case translatedText rd of
                            None \<Rightarrow> (text', s, sent2)
                          | Some tt \<Rightarrow>
                              if tt = [] then (text', s, sent2)
                              else
                                let nc = newCache cache key tt (now_store e);
                                    s1 = s\<lparr>translationCache := nc\<rparr>
                                in if setItem_succeeds e
                                   then (tt, s1\<lparr>localStorage :=
                                                 (localStorage s1)\<lparr>translationCache_item := Some nc\<rparr>\<rparr>,
                                         sent2)
                                   else (tt, s1,
                                         sent2 @ [ConsoleError ''Error saving translation cache:'']))))
             else (text', s, sent1))"

text \<open>
  \<^verbatim>\<open>
  if (language === 'en') return text;
  const key = cacheKey || text;
  const cached = translationCache[key];
  if (cached && Date.now() - cached.timestamp < 24 * 60 * 60 * 1000) return cached.text;
  \<close>
  \<open>cacheKey || text\<close> takes the text when the key is missing or empty.
\<close>

definition translateText ::
  "env \<Rightarrow> app \<Rightarrow> app \<Rightarrow> string \<Rightarrow> string option \<Rightarrow> string \<times> app \<times> event list" where
  "translateText e c s text' cacheKey =
     (if language c = En then (text', s, [])
      else
        let key = (case cacheKey of None \<Rightarrow> text' | Some k \<Rightarrow> if k = [] then text' else k)
        in case cached_text (translationCache c) key (now_lookup e) of
             Some t \<Rightarrow> (t, s, [])
           | None \<Rightarrow> request_translation e (translationCache c) s text' key)"

subsection \<open>Translation of definitions and examples\<close>

text \<open>
  \<^verbatim>\<open>
  definitions.forEach(def => {
    def.meanings.forEach(meaning => {
      meaning.definitions.forEach((definition, defIndex) => {
        const defKey = `${def.word}-${meaning.partOfSpeech}-${defIndex}`;
        definitionsToTranslate[defKey] = definition.definition;
        if (definition.example) {
          const exampleKey = `${def.word}-${meaning.partOfSpeech}-${defIndex}-example`;
          examplesToTranslate[exampleKey] = definition.example;
        }
      });
    });
  });
  \<close>
  The two objects are association lists in insertion order (no key is an array index,
  every key has a hyphen); assigning to a key that is there replaces its value in place,
  which is \<open>AList.update\<close>. \<open>Object.entries\<close> is then the list itself.
\<close>

definition defKey :: "DictionaryResponse \<Rightarrow> Meaning \<Rightarrow> nat \<Rightarrow> string" where
  "defKey entry meaning defIndex =
     entry_word entry @ ''-'' @ partOfSpeech meaning @ ''-'' @ string_of_nat defIndex"

definition exampleKey :: "DictionaryResponse \<Rightarrow> Meaning \<Rightarrow> nat \<Rightarrow> string" where
  "exampleKey entry meaning defIndex =
     entry_word entry @ ''-'' @ partOfSpeech meaning @ ''-'' @ string_of_nat defIndex @ ''-example''"

definition forEach_definition ::
  "DictionaryResponse list \<Rightarrow> (DictionaryResponse \<times> Meaning \<times> nat \<times> Definition) list" where
  "forEach_definition ds =
     concat (map (\<lambda>entry.
       concat (map (\<lambda>meaning.
         map (\<lambda>(defIndex, d). (entry, meaning, defIndex, d))
           (enumerate 0 (meaning_definitions meaning)))
         (meanings entry)))
       ds)"

definition definitionsToTranslate :: "DictionaryResponse list \<Rightarrow> (string \<times> string) list" where
  "definitionsToTranslate ds =
     foldl (\<lambda>obj (entry, meaning, defIndex, d).
              AList.update (defKey entry meaning defIndex) (definition_text d) obj)
       [] (forEach_definition ds)"

definition examplesToTranslate :: "DictionaryResponse list \<Rightarrow> (string \<times> string) list" where
  "examplesToTranslate ds =
     foldl (\<lambda>obj (entry, meaning, defIndex, d).
              case example d of
                None \<Rightarrow> obj
              | Some ex \<Rightarrow>
                  if ex = [] then obj else AList.update (exampleKey entry meaning defIndex) ex obj)
       [] (forEach_definition ds)"

text \<open>
  An \<open>async\<close> function runs up to its first \<open>await\<close> at the moment it is called. The
  first \<open>await\<close> of \<open>translateText\<close> is the one on its first \<open>fetch\<close>: of the events of
  one call the first (when there is one) happens at the call, the others when the answers
  are handled.
\<close>

definition before_first_await :: "event list \<Rightarrow> event list" where
  "before_first_await ev = take 1 ev"

definition after_first_await :: "event list \<Rightarrow> event list" where
  "after_first_await ev = drop 1 ev"

text \<open>
  \<^verbatim>\<open>
  const defPromises = Object.entries(definitionsToTranslate).map(async ([key, text]) => {
    const translated = await translateText(text, key);
    return [key, translated];
  });
  const examplePromises = Object.entries(examplesToTranslate).map(async ([key, text]) => {
    const translated = await translateText(text, key);
    return [key, translated];
  });
  try {
    const defResults = await Promise.all(defPromises);
    const exampleResults = await Promise.all(examplePromises);
    ...
    setDefinitionTranslations(newDefTranslations);
    setExampleTranslations(newExampleTranslations);
  } catch (err) { ... }
  \<close>
  One call of \<open>translateText\<close> for every entry of the two objects, all of them made before
  anything is awaited: every call reads the state \<open>c\<close> of the same render and has run to
  its first \<open>await\<close> before the answer of any call is handled. The answers are handled in
  the order of the entries in the model, so of several calls that set the cache the last
  one in this order is the one that stays. \<open>translate_entries\<close> gives the results, the
  state and the events of every call.
\<close>

fun translate_entries ::
  "env \<Rightarrow> app \<Rightarrow> app \<Rightarrow> (string \<times> string) list \<Rightarrow>
     (string \<times> string) list \<times> app \<times> event list list" where
  "translate_entries e c s [] = ([], s, [])"
| "translate_entries e c s ((key, text') # rest) =
     (case translateText e c s text' (Some key) of
        (translated, s1, ev1) \<Rightarrow>
          (case translate_entries e c s1 rest of
             (results, s2, evs) \<Rightarrow> ((key, translated) # results, s2, ev1 # evs)))"

definition translateDefinitionsAndExamples ::
  "env \<Rightarrow> app \<Rightarrow> app \<Rightarrow> DictionaryResponse list \<Rightarrow> app \<times> event list" where
  "translateDefinitionsAndExamples e c s ds =
     (if language c = En then (s, [])
      else
        case translate_entries e c s (definitionsToTranslate ds) of
          (defResults, s1, evs1) \<Rightarrow>
            (case translate_entries e c s1 (examplesToTranslate ds) of
               (exampleResults, s2, evs2) \<Rightarrow>
                 (s2\<lparr>definitionTranslations :=
                        foldl (\<lambda>obj (key, t). AList.update key t obj) [] defResults,
                      exampleTranslations :=
                        foldl (\<lambda>obj (key, t). AList.update key t obj) [] exampleResults\<rparr>,
                  concat (map before_first_await (evs1 @ evs2))
                  @ concat (map after_first_await (evs1 @ evs2)))))"

subsection \<open>The three fetchers and the search\<close>

definition wordNotFound :: "Language \<Rightarrow> string" where
  "wordNotFound l =
     (case l of
        En \<Rightarrow> ''Word not found''
      | PtBR \<Rightarrow> ''Palavra n'' @ [char_of (227::nat)] @ ''o encontrada'')"

text \<open>
  \<^verbatim>\<open>
  setLoading(true); setError(null);
  try {
    const response = await fetch(`.../entries/en/${encodeURIComponent(word)}`);
    if (!response.ok) {
      throw new Error(response.status === 404 ? t.wordNotFound : 'Failed to fetch data');
    }
    const data = await response.json();
    setDefinitions(data);
    await translateDefinitionsAndExamples(data);
  } catch (err) {
    setError(err instanceof Error ? err.message : 'An unknown error occurred');
    setDefinitions([]);
  } finally {
    setLoading(false);
  }
  \<close>
\<close>

definition fetchDefinitions :: "env \<Rightarrow> app \<Rightarrow> app \<Rightarrow> string \<Rightarrow> app \<times> event list" where
  "fetchDefinitions e c s word' =
     (let s1 = s\<lparr>loading := True, error := None\<rparr>;
          sent = [Fetch (GetDictionary word')];
          caught = (\<lambda>msg. (s1\<lparr>error := Some msg, definitions := [], loading := False\<rparr>, sent))
      in case dictionaryapi e word' of
           Rejected msg \<Rightarrow> caught msg
         | Resolved response \<Rightarrow>
             if \<not> ok response
             then caught (if status response = 404 then wordNotFound (language c)
                          else ''Failed to fetch data'')
             else
               (case json response of
                  Malformed msg \<Rightarrow> caught msg
                | Json data \<Rightarrow>
                    (case translateDefinitionsAndExamples e c (s1\<lparr>definitions := data\<rparr>) data of
                       (s2, ev) \<Rightarrow> (s2\<lparr>loading := False\<rparr>, sent @ ev))))"

text \<open>
  \<^verbatim>\<open>
  if (language === 'en') { setTranslation(null); return; }
  const translated = await translateText(word, `main-word-${word}`);
  setTranslation({ text: translated, source: 'Portugues' });
  \<close>
\<close>

definition fetchTranslation :: "env \<Rightarrow> app \<Rightarrow> app \<Rightarrow> string \<Rightarrow> app \<times> event list" where
  "fetchTranslation e c s word' =
     (if language c = En then (s\<lparr>translation := None\<rparr>, [])
      else
        case translateText e c s word' (Some (''main-word-'' @ word')) of
          (translated, s1, ev) \<Rightarrow>
            (s1\<lparr>translation := Some (translated, ''Portugu'' @ [char_of (234::nat)] @ ''s'')\<rparr>, ev))"

text \<open>
  \<^verbatim>\<open>
  if (!searchWord.trim()) return;
  setWord(searchWord);
  addToHistory(searchWord);
  await Promise.all([
    fetchDefinitions(searchWord),
    fetchRelatedWords(searchWord),
    fetchTranslation(searchWord)
  ]);
  \<close>
  The three fetchers set different state variables, except for the translation cache; the
  model runs them one after the other in the order of the array, so the events of one
  fetcher stand before those of the next.
\<close>

definition handleSearch :: "env \<Rightarrow> app \<Rightarrow> app \<Rightarrow> string \<Rightarrow> app \<times> event list" where
  "handleSearch e c s searchWord =
     (if trim searchWord = [] then (s, [])
      else
        case addToHistory e c (s\<lparr>current_word := searchWord\<rparr>) searchWord of
          (s1, ev1) \<Rightarrow>
            (case fetchDefinitions e c s1 searchWord of
               (s2, ev2) \<Rightarrow>
                 (case fetchRelatedWords e s2 searchWord of
                    (s3, ev3) \<Rightarrow>
                      (case fetchTranslation e c s3 searchWord of
                         (s4, ev4) \<Rightarrow> (s4, ev1 @ ev2 @ ev3 @ ev4)))))"

text \<open>
  A sequence of searches. In \<open>src/App.tsx\<close> the callback is
  \<^verbatim>\<open>useCallback(async (searchWord) => {...}, [fetchDefinitions, fetchRelatedWords, fetchTranslation])\<close>:
  \<open>addToHistory\<close> is not among the dependencies. \<open>fetchDefinitions\<close> and
  \<open>fetchRelatedWords\<close> never change and \<open>fetchTranslation\<close> changes with the language
  only, so as long as the language stays the same every search runs the \<open>handleSearch\<close>
  of one render \<open>c\<close> (at first the one of the mount), with the \<open>addToHistory\<close> and the
  \<open>history\<close> of that render. In \<open>README.md\<close> the list ends with \<open>addToHistory\<close>, which
  changes with the history, so every search runs with the state the search before it left.
  The body of \<open>handleSearch\<close> reads the same in both.
\<close>

definition searches_memoised :: "env \<Rightarrow> app \<Rightarrow> app \<Rightarrow> string list \<Rightarrow> app" where
  "searches_memoised e c s ws = foldl (\<lambda>s w. fst (handleSearch e c s w)) s ws"

definition searches :: "env \<Rightarrow> app \<Rightarrow> string list \<Rightarrow> app" where
  "searches e s ws = foldl (\<lambda>s w. fst (handleSearch e s s w)) s ws"

subsection \<open>Concrete states and answers\<close>

text \<open>The initial values of the state variables (\<open>useState\<close>), with nothing stored.\<close>

definition initial_state :: app where
  "initial_state =
     \<lparr>current_word = [], definitions = [], relatedWords = [], translation = None,
      favorites = [], history = [], language = En, loading = False, error = None,
      translationCache = Map.empty, definitionTranslations = [], exampleTranslations = [],
      localStorage = \<lparr>dictionaryFavorites = None, dictionaryHistory = None,
                        translationCache_item = None\<rparr>\<rparr>"

text \<open>No service can be reached: every \<open>fetch\<close> rejects.\<close>

definition offline :: env where
  "offline =
     \<lparr>dictionaryapi = (\<lambda>w. Rejected ''Failed to fetch''),
      datamuse = (\<lambda>rel w. Rejected ''Failed to fetch''),
      mymemory_get = Rejected ''Failed to fetch'',
      mymemory_translate = (\<lambda>q. Rejected ''Failed to fetch''),
      now_lookup = 0, now_store = 0, setItem_succeeds = True\<rparr>"

text \<open>The dictionary does not know the word (status 404); one Datamuse relation answers.\<close>

definition unknown_word :: env where
  "unknown_word =
     offline\<lparr>dictionaryapi := (\<lambda>w. Resolved \<lparr>ok = False, status = 404, json = Json []\<rparr>),
             datamuse := (\<lambda>rel w. if rel = ''rel_syn''
                            then Resolved \<lparr>ok = True, status = 200,
                                           json = Json [\<lparr>word = ''jog'', score = 5\<rparr>]\<rparr>
                            else Rejected ''Failed to fetch'')\<rparr>"

definition run_entry :: DictionaryResponse where
  "run_entry =
     \<lparr>entry_word = ''run'',
      meanings = [\<lparr>partOfSpeech = ''verb'',
                   meaning_definitions =
                     [\<lparr>definition_text = ''To move swiftly.'', example = Some ''Run, Sarah, run!''\<rparr>,
                      \<lparr>definition_text = ''To flow.'', example = None\<rparr>]\<rparr>]\<rparr>"

text \<open>A state in which a search for "run" has been shown.\<close>

definition shown_run :: app where
  "shown_run =
     initial_state\<lparr>current_word := ''run'', definitions := [run_entry],
                    relatedWords := [\<lparr>word = ''sprint'', score = 10\<rparr>],
                    history := [''run'']\<rparr>"

text \<open>The same state with Portuguese as the language, and with one cached translation.\<close>

definition portuguese :: app where
  "portuguese = shown_run\<lparr>language := PtBR\<rparr>"

definition cached_run :: app where
  "cached_run =
     portuguese\<lparr>translationCache :=
                   newCache (translationCache portuguese) ''main-word-run'' ''correr'' 0\<rparr>"

text \<open>
  MyMemory answers the request without a query, and refuses the translation with status 429
  and a body that carries its warning in \<open>translatedText\<close>.
\<close>

definition quota_exceeded :: env where
  "quota_exceeded =
     offline\<lparr>mymemory_get :=
               Resolved \<lparr>ok = True, status = 200,
                         json = Json (Data (Some \<lparr>translatedText = Some ''NO QUERY SPECIFIED''\<rparr>))\<rparr>,
             mymemory_translate :=
               (\<lambda>q. Resolved \<lparr>ok = False, status = 429,
                         json = Json (Data (Some \<lparr>translatedText =
                                  Some ''MYMEMORY WARNING: YOU USED ALL AVAILABLE FREE TRANSLATIONS FOR TODAY''\<rparr>))\<rparr>)\<rparr>"

text \<open>
  Two entries for the same headword with the same part of speech, and services that answer
  every request.
\<close>

definition bank_entries :: "DictionaryResponse list" where
  "bank_entries =
     [\<lparr>entry_word = ''bank'',
       meanings = [\<lparr>partOfSpeech = ''noun'',
                    meaning_definitions =
                      [\<lparr>definition_text = ''An institution where one can deposit money.'',
                        example = None\<rparr>]\<rparr>]\<rparr>,
      \<lparr>entry_word = ''bank'',
       meanings = [\<lparr>partOfSpeech = ''noun'',
                    meaning_definitions =
                      [\<lparr>definition_text = ''An edge of a river.'', example = None\<rparr>]\<rparr>]\<rparr>]"

definition online :: env where
  "online =
     offline\<lparr>dictionaryapi :=
               (\<lambda>w. Resolved \<lparr>ok = True, status = 200,
                         json = Json (if w = ''bank'' then bank_entries else [run_entry])\<rparr>),
             mymemory_get :=
               Resolved \<lparr>ok = True, status = 200,
                         json = Json (Data (Some \<lparr>translatedText = Some ''NO QUERY SPECIFIED''\<rparr>))\<rparr>,
             mymemory_translate :=
               (\<lambda>q. Resolved \<lparr>ok = True, status = 200,
                         json = Json (Data (Some \<lparr>translatedText = Some (''pt: '' @ q)\<rparr>))\<rparr>)\<rparr>"

section \<open>Theorems\<close>

subsection \<open>Related words\<close>

lemma findIndex_from_range: "findIndex_from p k ys = - 1 \<or> int k \<le> findIndex_from p k ys"
proof (induction ys arbitrary: k)
  case Nil
  show ?case by simp
next
  case (Cons y ys)
  from Cons[of "Suc k"] show ?case by auto
qed

lemma findIndex_from_skip:
  "\<forall>x\<in>set pre. \<not> p x \<Longrightarrow> findIndex_from p k (pre @ ys) = findIndex_from p (k + length pre) ys"
  by (induction pre arbitrary: k) auto

lemma findIndex_from_early:
  "\<exists>x\<in>set pre. p x \<Longrightarrow> findIndex_from p k (pre @ ys) < int (k + length pre)"
proof (induction pre arbitrary: k)
  case Nil
  then show ?case by simp
next
  case (Cons a pre)
  show ?case
  proof (cases "p a")
    case True
    then show ?thesis by simp
  next
    case False
    with Cons.prems have "\<exists>x\<in>set pre. p x" by simp
    from Cons.IH[OF this, of "Suc k"] False show ?thesis by simp
  qed
qed

lemma findIndex_first:
  "findIndex p (pre @ r # rs) = int (length pre) \<longleftrightarrow> (\<forall>x\<in>set pre. \<not> p x) \<and> p r"
proof (cases "\<exists>x\<in>set pre. p x")
  case True
  from findIndex_from_early[OF this, of 0 "r # rs"] True show ?thesis
    by (auto simp: findIndex_def)
next
  case False
  then have "findIndex p (pre @ r # rs) = findIndex_from p (length pre) (r # rs)"
    using findIndex_from_skip[of pre p 0 "r # rs"] by (simp add: findIndex_def)
  moreover have "\<not> p r \<Longrightarrow> findIndex_from p (Suc (length pre)) rs \<noteq> int (length pre)"
    using findIndex_from_range[of p "Suc (length pre)" rs] by auto
  ultimately show ?thesis using False by auto
qed

lemma keep_first_cong: "set seen = set seen' \<Longrightarrow> keep_first seen rs = keep_first seen' rs"
proof (induction rs arbitrary: seen seen')
  case Nil
  show ?case by simp
next
  case (Cons r rs)
  have "keep_first (word r # seen) rs = keep_first (word r # seen') rs"
    by (rule Cons.IH) (simp add: Cons.prems)
  moreover have "keep_first seen rs = keep_first seen' rs"
    by (rule Cons.IH) (rule Cons.prems)
  ultimately show ?case using Cons.prems by simp
qed

lemma filter_first_keep_first:
  "map snd (filter (\<lambda>(i, v). findIndex (\<lambda>t. word t = word v) (pre @ rs) = int i)
      (enumerate (length pre) rs)) = keep_first (map word pre) rs"
proof (induction rs arbitrary: pre)
  case Nil
  show ?case by simp
next
  case (Cons r rs)
  have ih: "map snd (filter (\<lambda>(i, v). findIndex (\<lambda>t. word t = word v) (pre @ r # rs) = int i)
      (enumerate (Suc (length pre)) rs)) = keep_first (map word (pre @ [r])) rs"
    using Cons.IH[of "pre @ [r]"] by simp
  have hd: "findIndex (\<lambda>t. word t = word r) (pre @ r # rs) = int (length pre)
       \<longleftrightarrow> word r \<notin> word ` set pre"
    using findIndex_first[of "\<lambda>t. word t = word r" pre r rs] by (auto simp: image_iff)
  show ?case
  proof (cases "word r \<in> word ` set pre")
    case True
    then have "keep_first (map word (pre @ [r])) rs = keep_first (map word pre) rs"
      by (intro keep_first_cong) auto
    with True ih hd show ?thesis by simp
  next
    case False
    have "keep_first (map word (pre @ [r])) rs = keep_first (word r # map word pre) rs"
      by (intro keep_first_cong) auto
    with False ih hd show ?thesis by simp
  qed
qed

lemma filter_indexed_keep_first:
  "filter_indexed (\<lambda>v i a. findIndex (\<lambda>t. word t = word v) a = int i) rs = keep_first [] rs"
  using filter_first_keep_first[of "[]" rs] by (simp add: filter_indexed_def)

lemma keep_first_words: "set (map word (keep_first seen rs)) \<inter> set seen = {}"
  by (induction seen rs rule: keep_first.induct) auto

lemma keep_first_distinct: "distinct (map word (keep_first seen rs))"
proof (induction seen rs rule: keep_first.induct)
  case (1 seen)
  show ?case by simp
next
  case (2 seen r rs)
  from keep_first_words[of "word r # seen" rs] have "word r \<notin> set (map word (keep_first (word r # seen) rs))"
    by auto
  with 2 show ?case by auto
qed

lemma mset_insert_sorted: "mset (insert_sorted cmp x ys) = add_mset x (mset ys)"
  by (induction ys) auto

lemma mset_sort_with: "mset (sort_with cmp a) = mset a"
  by (induction a) (auto simp: sort_with_def mset_insert_sorted)

lemma sorted_insert_sorted:
  "sorted_wrt (\<lambda>a b. score b \<le> score a) ys \<Longrightarrow>
   sorted_wrt (\<lambda>a b. score b \<le> score a) (insert_sorted (\<lambda>a b. score b - score a) x ys)"
proof (induction ys)
  case Nil
  show ?case by simp
next
  case (Cons y ys)
  have "set (insert_sorted (\<lambda>a b. score b - score a) x ys) = insert x (set ys)"
    using mset_insert_sorted[of "\<lambda>a b. score b - score a" x ys, THEN arg_cong, of set_mset] by simp
  moreover have "sorted_wrt (\<lambda>a b. score b \<le> score a) (insert_sorted (\<lambda>a b. score b - score a) x ys)"
    using Cons by simp
  ultimately show ?case using Cons.prems by fastforce
qed

lemma sorted_sort_with:
  "sorted_wrt (\<lambda>a b. score b \<le> score a) (sort_with (\<lambda>a b. score b - score a) a)"
  unfolding sort_with_def by (induction a) (auto intro: sorted_insert_sorted)

lemma distinct_words_sort_with:
  "distinct (map word a) \<Longrightarrow> distinct (map word (sort_with cmp a))"
proof -
  assume d: "distinct (map word a)"
  have "mset (map word (sort_with cmp a)) = mset (map word a)"
    by (simp add: mset_sort_with)
  with d show ?thesis using mset_eq_imp_distinct_iff by blast
qed

text \<open>
  C4. The list that \<open>fetchRelatedWords\<close> sets is: the three lists concatenated in the order
  synonyms, triggers, adjectives; only the first occurrence of every word text kept; sorted
  by score, highest first (a rearrangement of the deduplicated list); cut to the first 30.
  So it has at most 30 items, no word text twice, and descending scores.
\<close>

theorem combined_policy:
  "combined synonyms triggers adjectives
     = take 30 (sort_with (\<lambda>a b. score b - score a) (keep_first [] (synonyms @ triggers @ adjectives)))
   \<and> mset (sort_with (\<lambda>a b. score b - score a) (keep_first [] (synonyms @ triggers @ adjectives)))
       = mset (keep_first [] (synonyms @ triggers @ adjectives))
   \<and> length (combined synonyms triggers adjectives) \<le> 30
   \<and> distinct (map word (combined synonyms triggers adjectives))
   \<and> sorted_wrt (\<lambda>a b. score b \<le> score a) (combined synonyms triggers adjectives)"
proof -
  let ?d = "keep_first [] (synonyms @ triggers @ adjectives)"
  let ?s = "sort_with (\<lambda>a b. score b - score a) ?d"
  have eq: "combined synonyms triggers adjectives = take 30 ?s"
    by (simp add: combined_def filter_indexed_keep_first)
  have "distinct (map word ?s)"
    by (rule distinct_words_sort_with) (rule keep_first_distinct)
  then have "distinct (map word (take 30 ?s))"
    by (simp add: take_map[symmetric] distinct_take del: take_map)
  moreover have "sorted_wrt (\<lambda>a b. score b \<le> score a) (take 30 ?s)"
    using sorted_sort_with[of ?d] by (rule sorted_wrt_take)
  ultimately show ?thesis
    by (simp add: eq mset_sort_with)
qed

text \<open>
  C6. When one of the three Datamuse calls fails (the request rejects or its body cannot be
  read), and so also when all three fail, \<open>fetchRelatedWords\<close> leaves the whole state as it
  was: the related words are neither cleared nor replaced by the answers that did arrive,
  and the error variable is not set. The failure is written to the console only.
\<close>

theorem fetchRelatedWords_failure:
  "fetch_json (datamuse e ''rel_syn'' w) = None \<or> fetch_json (datamuse e ''rel_trg'' w) = None
     \<or> fetch_json (datamuse e ''rel_jjb'' w) = None \<Longrightarrow>
   fetchRelatedWords e s w =
     (s, [Fetch (GetDatamuse ''rel_syn'' w), Fetch (GetDatamuse ''rel_trg'' w),
          Fetch (GetDatamuse ''rel_jjb'' w), ConsoleError ''Failed to load related words:''])"
  by (auto simp: fetchRelatedWords_def Let_def split: option.splits)

theorem fetchRelatedWords_failure_witness:
  "fetch_json (datamuse offline ''rel_syn'' ''run'') = None
   \<and> fetch_json (datamuse unknown_word ''rel_syn'' ''run'') = Some [\<lparr>word = ''jog'', score = 5\<rparr>]
   \<and> fetch_json (datamuse unknown_word ''rel_trg'' ''run'') = None
   \<and> fst (fetchRelatedWords offline shown_run ''run'') = shown_run
   \<and> fst (fetchRelatedWords unknown_word shown_run ''run'') = shown_run
   \<and> relatedWords shown_run = [\<lparr>word = ''sprint'', score = 10\<rparr>]
   \<and> error shown_run = None"
proof -
  have a: "fetch_json (datamuse offline ''rel_syn'' ''run'') = None"
    by (simp add: offline_def fetch_json_def)
  have b: "fetch_json (datamuse unknown_word ''rel_trg'' ''run'') = None"
    by (simp add: unknown_word_def offline_def fetch_json_def)
  have c: "fetch_json (datamuse unknown_word ''rel_syn'' ''run'') = Some [\<lparr>word = ''jog'', score = 5\<rparr>]"
    by (simp add: unknown_word_def offline_def fetch_json_def)
  have 1: "fst (fetchRelatedWords offline shown_run ''run'') = shown_run"
    using fetchRelatedWords_failure[of offline "''run''" shown_run] a by simp
  have 2: "fst (fetchRelatedWords unknown_word shown_run ''run'') = shown_run"
    using fetchRelatedWords_failure[of unknown_word "''run''" shown_run] b by simp
  have 3: "relatedWords shown_run = [\<lparr>word = ''sprint'', score = 10\<rparr>]"
    by (simp add: shown_run_def)
  have 4: "error shown_run = None"
    by (simp add: shown_run_def initial_state_def)
  show ?thesis
    by (intro conjI) (fact a b c 1 2 3 4)+
qed

subsection \<open>History\<close>

lemma newHistory_length: "length (newHistory h w) \<le> 15"
  by (simp add: newHistory_def)

lemma foldl_newHistory_length:
  "length h \<le> 15 \<Longrightarrow> length (foldl newHistory h ws) \<le> 15"
  by (induction ws arbitrary: h) (simp_all add: newHistory_length)

lemma history_addToHistory: "history (fst (addToHistory e c s w)) = newHistory (history c) w"
  by (simp add: addToHistory_def Let_def)

lemma history_searches:
  "history (foldl (\<lambda>s w. fst (addToHistory e s s w)) s0 ws) = foldl newHistory (history s0) ws"
  by (induction ws arbitrary: s0) (simp_all add: history_addToHistory)

text \<open>
  What \<open>addToHistory\<close> does to the history it reads: recording a word puts its lower-case
  form at the front, drops every earlier entry that is equal to it up to case, keeps the
  order of the others and cuts the list to 15. Run each time on the history the call before
  left, "Hello", "WORLD", "hello" from an empty history give "hello", "world", and the
  history never grows beyond 15 entries.
\<close>

theorem addToHistory_spec:
  "history (fst (addToHistory e c s w)) = newHistory (history c) w
   \<and> hd (newHistory h w) = toLowerCase w
   \<and> tl (newHistory h w) = take 14 (filter (\<lambda>x. toLowerCase x \<noteq> toLowerCase w) h)
   \<and> (\<forall>x\<in>set (tl (newHistory h w)). toLowerCase x \<noteq> toLowerCase w)
   \<and> length (newHistory h w) \<le> 15
   \<and> (length (history s0) \<le> 15 \<longrightarrow>
        length (history (foldl (\<lambda>s w. fst (addToHistory e s s w)) s0 ws)) \<le> 15)
   \<and> (history s0 = [] \<longrightarrow>
        history (foldl (\<lambda>s w. fst (addToHistory e s s w)) s0 [''Hello'', ''WORLD'', ''hello''])
          = [''hello'', ''world''])"
proof -
  have 1: "history (fst (addToHistory e c s w)) = newHistory (history c) w"
    by (rule history_addToHistory)
  have 2: "hd (newHistory h w) = toLowerCase w"
    by (simp add: newHistory_def take_Cons')
  have 3: "tl (newHistory h w) = take 14 (filter (\<lambda>x. toLowerCase x \<noteq> toLowerCase w) h)"
    by (simp add: newHistory_def take_Cons')
  have 4: "\<forall>x\<in>set (tl (newHistory h w)). toLowerCase x \<noteq> toLowerCase w"
    unfolding 3 using set_take_subset[of 14 "filter (\<lambda>x. toLowerCase x \<noteq> toLowerCase w) h"]
    by auto
  have 5: "length (newHistory h w) \<le> 15"
    by (rule newHistory_length)
  have 6: "length (history s0) \<le> 15 \<longrightarrow>
        length (history (foldl (\<lambda>s w. fst (addToHistory e s s w)) s0 ws)) \<le> 15"
    unfolding history_searches by (rule impI) (rule foldl_newHistory_length)
  have "foldl newHistory [] [''Hello'', ''WORLD'', ''hello''] = [''hello'', ''world'']"
    by code_simp
  then have 7: "history s0 = [] \<longrightarrow>
        history (foldl (\<lambda>s w. fst (addToHistory e s s w)) s0 [''Hello'', ''WORLD'', ''hello''])
          = [''hello'', ''world'']"
    unfolding history_searches by (intro impI) (simp only:)
  show ?thesis
    by (intro conjI) (fact 1 2 3 4 5 6 7)+
qed

theorem addToHistory_spec_witness:
  "history (fst (addToHistory offline shown_run shown_run ''HELLO'')) = [''hello'', ''run'']
   \<and> tl (newHistory [''world'', ''Hello''] ''HELLO'') = [''world'']
   \<and> toLowerCase ''world'' \<noteq> toLowerCase ''HELLO''
   \<and> length (history initial_state) \<le> 15
   \<and> length (history (foldl (\<lambda>s w. fst (addToHistory offline s s w)) initial_state [''a'', ''b''])) \<le> 15
   \<and> history initial_state = []
   \<and> history (foldl (\<lambda>s w. fst (addToHistory offline s s w)) initial_state
         [''Hello'', ''WORLD'', ''hello'']) = [''hello'', ''world'']"
proof -
  note t = addToHistory_spec[of offline shown_run shown_run "''HELLO''" "[''world'', ''Hello'']"
      initial_state "[''a'', ''b'']"]
  have h0: "history initial_state = []"
    by (simp add: initial_state_def)
  have a: "newHistory (history shown_run) ''HELLO'' = [''hello'', ''run'']"
    unfolding shown_run_def initial_state_def by code_simp
  have b: "take 14 (filter (\<lambda>x. toLowerCase x \<noteq> toLowerCase ''HELLO'') [''world'', ''Hello'']) = [''world'']"
    by code_simp
  have c: "toLowerCase ''world'' \<noteq> toLowerCase ''HELLO''"
    by code_simp
  from t a have 1: "history (fst (addToHistory offline shown_run shown_run ''HELLO'')) = [''hello'', ''run'']"
    by (simp only:)
  from t b have 2: "tl (newHistory [''world'', ''Hello''] ''HELLO'') = [''world'']"
    by (simp only:)
  from t h0 have 3: "length (history (foldl (\<lambda>s w. fst (addToHistory offline s s w)) initial_state [''a'', ''b''])) \<le> 15"
    by simp
  from t h0 have 4: "history (foldl (\<lambda>s w. fst (addToHistory offline s s w)) initial_state
         [''Hello'', ''WORLD'', ''hello'']) = [''hello'', ''world'']"
    by blast
  have 5: "length (history initial_state) \<le> 15" using h0 by simp
  show ?thesis
    by (intro conjI) (fact 1 2 c 3 4 5 h0)+
qed

subsection \<open>Favorites\<close>

text \<open>
  C9. Toggling a word twice gives back the same favorites, seen as a set of words. (As a
  list the order may change: a word that was present is removed and then appended.)
\<close>

theorem toggleFavorite_twice_set:
  "set (newFavorites (newFavorites fs w) w) = set fs \<and>
   set (favorites (fst (toggleFavorite e' (fst (toggleFavorite e c s w)) s' w)))
     = set (favorites c)"
  by (auto simp: toggleFavorite_def newFavorites_def Let_def)

subsection \<open>Translation\<close>

text \<open>
  C1 (as the code has it). An entry stored for key \<open>k\<close> with text \<open>v\<close> at time \<open>t\<close> is
  returned by a lookup at time \<open>t'\<close> when \<open>t' - t\<close> is less than 24 hours; from 24 hours
  on the lookup is a miss. A hit makes \<open>translateText\<close> return the cached text without a
  request; with an expired entry \<open>translateText\<close> does what it does without the entry. The
  stored entry itself stays in the map: a lookup never removes it.
\<close>

theorem cache_roundtrip:
  "(t' - t < 24 * 60 * 60 * 1000 \<longrightarrow> cached_text (newCache cache k v t) k t' = Some v)
   \<and> (24 * 60 * 60 * 1000 \<le> t' - t \<longrightarrow> cached_text (newCache cache k v t) k t' = None)
   \<and> newCache cache k v t k = Some \<lparr>entry_text = v, timestamp = t\<rparr>
   \<and> (language c \<noteq> En \<and> k \<noteq> [] \<and> cached_text (translationCache c) k (now_lookup e) = Some v
        \<longrightarrow> translateText e c s text' (Some k) = (v, s, []))
   \<and> (k \<noteq> [] \<and> cached_text (translationCache c) k (now_lookup e) = None
        \<longrightarrow> translateText e c s text' (Some k)
            = translateText e (c\<lparr>translationCache := (translationCache c)(k := None)\<rparr>) s text' (Some k))"
proof -
  have 1: "t' - t < 24 * 60 * 60 * 1000 \<longrightarrow> cached_text (newCache cache k v t) k t' = Some v"
    by (simp add: cached_text_def newCache_def)
  have 2: "24 * 60 * 60 * 1000 \<le> t' - t \<longrightarrow> cached_text (newCache cache k v t) k t' = None"
    by (simp add: cached_text_def newCache_def)
  have 3: "newCache cache k v t k = Some \<lparr>entry_text = v, timestamp = t\<rparr>"
    by (simp add: newCache_def)
  have 4: "language c \<noteq> En \<and> k \<noteq> [] \<and> cached_text (translationCache c) k (now_lookup e) = Some v
        \<longrightarrow> translateText e c s text' (Some k) = (v, s, [])"
    by (simp add: translateText_def)
  have n: "newCache ((translationCache c)(k := None)) k x y = newCache (translationCache c) k x y" for x y
    by (simp add: newCache_def)
  have r: "request_translation e ((translationCache c)(k := None)) s text' k
             = request_translation e (translationCache c) s text' k"
    unfolding request_translation_def n by (rule refl)
  have m: "cached_text ((translationCache c)(k := None)) k (now_lookup e) = None"
    by (simp add: cached_text_def)
  have 5: "k \<noteq> [] \<and> cached_text (translationCache c) k (now_lookup e) = None
        \<longrightarrow> translateText e c s text' (Some k)
            = translateText e (c\<lparr>translationCache := (translationCache c)(k := None)\<rparr>) s text' (Some k)"
    by (simp add: translateText_def r m)
  show ?thesis
    by (intro conjI) (fact 1 2 3 4 5)+
qed

theorem cache_roundtrip_witness:
  "(86399999::int) - 0 < 24 * 60 * 60 * 1000
   \<and> cached_text (translationCache cached_run) ''main-word-run'' 86399999 = Some ''correr''
   \<and> (24 * 60 * 60 * 1000::int) \<le> 86400001 - 0
   \<and> cached_text (translationCache cached_run) ''main-word-run'' 86400001 = None
   \<and> translationCache cached_run ''main-word-run'' = Some \<lparr>entry_text = ''correr'', timestamp = 0\<rparr>
   \<and> language cached_run \<noteq> En
   \<and> translateText (offline\<lparr>now_lookup := 86399999\<rparr>) cached_run cached_run ''run''
        (Some ''main-word-run'') = (''correr'', cached_run, [])
   \<and> translateText (offline\<lparr>now_lookup := 86400001\<rparr>) cached_run cached_run ''run''
        (Some ''main-word-run'')
      = translateText (offline\<lparr>now_lookup := 86400001\<rparr>)
          (cached_run\<lparr>translationCache := (translationCache cached_run)(''main-word-run'' := None)\<rparr>)
          cached_run ''run'' (Some ''main-word-run'')"
proof -
  have c: "translationCache cached_run
             = newCache (translationCache portuguese) ''main-word-run'' ''correr'' 0"
    by (simp add: cached_run_def)
  have l: "language cached_run \<noteq> En"
    by (simp add: cached_run_def portuguese_def)
  note hit = cache_roundtrip[of 86399999 0 "translationCache portuguese" "''main-word-run''" "''correr''"
      cached_run "offline\<lparr>now_lookup := 86399999\<rparr>" cached_run "''run''", folded c]
  note miss = cache_roundtrip[of 86400001 0 "translationCache portuguese" "''main-word-run''" "''correr''"
      cached_run "offline\<lparr>now_lookup := 86400001\<rparr>" cached_run "''run''", folded c]
  have 1: "cached_text (translationCache cached_run) ''main-word-run'' 86399999 = Some ''correr''"
    using hit by simp
  have 2: "cached_text (translationCache cached_run) ''main-word-run'' 86400001 = None"
    using miss by simp
  have 3: "translationCache cached_run ''main-word-run'' = Some \<lparr>entry_text = ''correr'', timestamp = 0\<rparr>"
    using hit by simp
  have 4: "translateText (offline\<lparr>now_lookup := 86399999\<rparr>) cached_run cached_run ''run''
        (Some ''main-word-run'') = (''correr'', cached_run, [])"
    using hit l 1 by simp
  have 5: "translateText (offline\<lparr>now_lookup := 86400001\<rparr>) cached_run cached_run ''run''
        (Some ''main-word-run'')
      = translateText (offline\<lparr>now_lookup := 86400001\<rparr>)
          (cached_run\<lparr>translationCache := (translationCache cached_run)(''main-word-run'' := None)\<rparr>)
          cached_run ''run'' (Some ''main-word-run'')"
    using miss 2 by simp
  have 6: "(86399999::int) - 0 < 24 * 60 * 60 * 1000" by simp
  have 7: "(24 * 60 * 60 * 1000::int) \<le> 86400001 - 0" by simp
  show ?thesis
    by (intro conjI) (fact 1 2 3 4 5 6 7 l)+
qed

text \<open>
  At exactly 24 hours after the entry was stored the lookup is already a miss.
\<close>

theorem cache_expiry_boundary:
  "(86400000::int) - 0 \<le> 24 * 60 * 60 * 1000
   \<and> cached_text (newCache (translationCache initial_state) ''main-word-run'' ''correr'' 0)
        ''main-word-run'' 86400000 = None"
  by (simp add: cached_text_def newCache_def)

text \<open>
  C7. With English as the language, \<open>translateText\<close> returns the text as it is, whatever
  the key, the cache and the network are: no request is sent and the state, the cache
  with it, is neither read nor changed.
\<close>

theorem translateText_en:
  "language c = En \<Longrightarrow> translateText e c s w k = (w, s, [])"
  by (simp add: translateText_def)

theorem translateText_en_witness:
  "language (cached_run\<lparr>language := En\<rparr>) = En
   \<and> translationCache (cached_run\<lparr>language := En\<rparr>) ''main-word-run''
       = Some \<lparr>entry_text = ''correr'', timestamp = 0\<rparr>
   \<and> translateText online (cached_run\<lparr>language := En\<rparr>) shown_run ''run'' (Some ''main-word-run'')
       = (''run'', shown_run, [])"
proof -
  have l: "language (cached_run\<lparr>language := En\<rparr>) = En"
    by simp
  have c: "translationCache (cached_run\<lparr>language := En\<rparr>) ''main-word-run''
       = Some \<lparr>entry_text = ''correr'', timestamp = 0\<rparr>"
    by (simp add: cached_run_def newCache_def)
  from translateText_en[OF l] l c show ?thesis by blast
qed

lemma request_translation_handled_failures:
  assumes "(\<exists>m. mymemory_get e = Rejected m)
         \<or> (\<exists>r. mymemory_get e = Resolved r \<and> \<not> ok r)
         \<or> (\<exists>m. mymemory_translate e text' = Rejected m)
         \<or> (\<exists>r. mymemory_translate e text' = Resolved r \<and>
                (json r = Json Null \<or> json r = Json (Data None) \<or> (\<exists>m. json r = Malformed m)
                 \<or> json r = Json (Data (Some \<lparr>translatedText = None\<rparr>))
                 \<or> json r = Json (Data (Some \<lparr>translatedText = Some []\<rparr>))))"
  shows "fst (request_translation e cache s text' key) = text'
         \<and> fst (snd (request_translation e cache s text' key)) = s"
proof (cases "mymemory_get e")
  case (Rejected m)
  then show ?thesis by (simp add: request_translation_def)
next
  case (Resolved r)
  show ?thesis
  proof (cases "ok r")
    case False
    with Resolved show ?thesis by (simp add: request_translation_def)
  next
    case True
    with Resolved assms have
      "(\<exists>m. mymemory_translate e text' = Rejected m)
         \<or> (\<exists>r. mymemory_translate e text' = Resolved r \<and>
                (json r = Json Null \<or> json r = Json (Data None) \<or> (\<exists>m. json r = Malformed m)
                 \<or> json r = Json (Data (Some \<lparr>translatedText = None\<rparr>))
                 \<or> json r = Json (Data (Some \<lparr>translatedText = Some []\<rparr>))))"
      by auto
    then show ?thesis
    proof (elim disjE exE conjE)
      fix m assume "mymemory_translate e text' = Rejected m"
      with Resolved True show ?thesis by (simp add: request_translation_def)
    next
      fix r' assume "mymemory_translate e text' = Resolved r'" "json r' = Json Null"
      with Resolved True show ?thesis by (simp add: request_translation_def)
    next
      fix r' assume "mymemory_translate e text' = Resolved r'" "json r' = Json (Data None)"
      with Resolved True show ?thesis by (simp add: request_translation_def)
    next
      fix r' m assume "mymemory_translate e text' = Resolved r'" "json r' = Malformed m"
      with Resolved True show ?thesis by (simp add: request_translation_def)
    next
      fix r' assume "mymemory_translate e text' = Resolved r'"
        "json r' = Json (Data (Some \<lparr>translatedText = None\<rparr>))"
      with Resolved True show ?thesis by (simp add: request_translation_def)
    next
      fix r' assume "mymemory_translate e text' = Resolved r'"
        "json r' = Json (Data (Some \<lparr>translatedText = Some []\<rparr>))"
      with Resolved True show ?thesis by (simp add: request_translation_def)
    qed
  qed
qed

text \<open>
  C3. A failed translation should give back the original text, and for a rejected request,
  an unreadable body, a body without a translation and a failure status of the first
  request it does (\<open>request_translation_handled_failures\<close>). The status of the response
  that carries the translation is never looked at: when MyMemory refuses with status 429
  and puts its warning into \<open>translatedText\<close>, \<open>translateText\<close> returns the warning
  instead of the original text.
\<close>

theorem translateText_unchecked_status:
  "mymemory_translate quota_exceeded ''run'' =
     Resolved \<lparr>ok = False, status = 429,
               json = Json (Data (Some \<lparr>translatedText =
                        Some ''MYMEMORY WARNING: YOU USED ALL AVAILABLE FREE TRANSLATIONS FOR TODAY''\<rparr>))\<rparr>
   \<and> fst (translateText quota_exceeded portuguese portuguese ''run'' (Some ''main-word-run''))
       = ''MYMEMORY WARNING: YOU USED ALL AVAILABLE FREE TRANSLATIONS FOR TODAY''
   \<and> fst (translateText quota_exceeded portuguese portuguese ''run'' (Some ''main-word-run'')) \<noteq> ''run''"
  by (simp add: translateText_def request_translation_def quota_exceeded_def offline_def
      portuguese_def shown_run_def initial_state_def cached_text_def Let_def)

subsection \<open>Search and dictionary lookup\<close>

lemma trim_blank: "list_all isWhiteSpace w \<Longrightarrow> trim w = []"
proof -
  assume "list_all isWhiteSpace w"
  then have d: "dropWhile isWhiteSpace w = []"
    by (induction w) simp_all
  show ?thesis unfolding trim_def d by simp
qed

text \<open>
  C8. A search for an empty string or a string of white space only does nothing: the state
  (history, definitions, related words, translation, stored items) is returned as it was
  and no request is sent.
\<close>

theorem handleSearch_blank:
  "list_all isWhiteSpace searchWord \<Longrightarrow> handleSearch e c s searchWord = (s, [])"
  by (simp add: handleSearch_def trim_blank)

theorem handleSearch_blank_witness:
  "list_all isWhiteSpace [CHR '' '', char_of (9::nat), CHR '' '']
   \<and> handleSearch unknown_word shown_run shown_run [CHR '' '', char_of (9::nat), CHR '' '']
        = (shown_run, [])"
proof -
  have b: "list_all isWhiteSpace [CHR '' '', char_of (9::nat), CHR '' '']"
    by code_simp
  from handleSearch_blank[OF b] b show ?thesis by blast
qed

text \<open>
  C10. When the dictionary lookup fails (the request rejects, the status is 404 or another
  failure status, or the body cannot be read), the definitions shown before are replaced by
  the empty list and the error variable is set.
\<close>

theorem fetchDefinitions_failure:
  assumes "\<forall>r. dictionaryapi e w = Resolved r \<longrightarrow> \<not> ok r \<or> (\<exists>m. json r = Malformed m)"
  shows "definitions (fst (fetchDefinitions e c s w)) = []
         \<and> error (fst (fetchDefinitions e c s w)) \<noteq> None
         \<and> loading (fst (fetchDefinitions e c s w)) = False
         \<and> snd (fetchDefinitions e c s w) = [Fetch (GetDictionary w)]"
proof (cases "dictionaryapi e w")
  case (Rejected msg)
  then show ?thesis by (simp add: fetchDefinitions_def Let_def)
next
  case (Resolved r)
  with assms have "\<not> ok r \<or> (\<exists>m. json r = Malformed m)" by simp
  then show ?thesis
  proof
    assume "\<not> ok r"
    with Resolved show ?thesis by (simp add: fetchDefinitions_def Let_def)
  next
    assume "\<exists>m. json r = Malformed m"
    then obtain m where "json r = Malformed m" ..
    with Resolved show ?thesis by (simp add: fetchDefinitions_def Let_def)
  qed
qed

theorem fetchDefinitions_failure_witness:
  "dictionaryapi unknown_word ''xyzzyqq'' = Resolved \<lparr>ok = False, status = 404, json = Json []\<rparr>
   \<and> definitions shown_run = [run_entry]
   \<and> definitions (fst (fetchDefinitions unknown_word shown_run shown_run ''xyzzyqq'')) = []
   \<and> error (fst (fetchDefinitions unknown_word shown_run shown_run ''xyzzyqq'')) \<noteq> None"
proof -
  have a: "dictionaryapi unknown_word ''xyzzyqq'' = Resolved \<lparr>ok = False, status = 404, json = Json []\<rparr>"
    by (simp add: unknown_word_def)
  then have h: "\<forall>r. dictionaryapi unknown_word ''xyzzyqq'' = Resolved r \<longrightarrow> \<not> ok r \<or> (\<exists>m. json r = Malformed m)"
    by auto
  have b: "definitions shown_run = [run_entry]"
    by (simp add: shown_run_def)
  from fetchDefinitions_failure[OF h, of shown_run shown_run] a b show ?thesis by blast
qed


























subsection \<open>The history over a sequence of searches\<close>

lemma history_request_translation:
  "history (fst (snd (request_translation e cache s t k))) = history s"
  by (simp add: request_translation_def Let_def
      split: promise.splits body.splits mymemory_json.splits option.splits)

lemma history_translateText:
  "history (fst (snd (translateText e c s t k))) = history s"
  by (simp add: translateText_def Let_def history_request_translation split: option.splits)

lemma history_translate_entries:
  "history (fst (snd (translate_entries e c s xs))) = history s"
proof (induction xs arbitrary: s)
  case Nil
  show ?case by simp
next
  case (Cons x xs)
  obtain key t where x: "x = (key, t)" by (cases x)
  show ?case
    by (simp add: x case_prod_beta Cons.IH history_translateText)
qed

lemma history_translateDefinitionsAndExamples:
  "history (fst (translateDefinitionsAndExamples e c s ds)) = history s"
  by (simp add: translateDefinitionsAndExamples_def case_prod_beta history_translate_entries)

lemma history_fetchDefinitions:
  "history (fst (fetchDefinitions e c s w)) = history s"
  by (simp add: fetchDefinitions_def Let_def case_prod_beta history_translateDefinitionsAndExamples
      split: promise.splits body.splits)

lemma history_fetchRelatedWords:
  "history (fst (fetchRelatedWords e s w)) = history s"
  by (simp add: fetchRelatedWords_def Let_def split: option.splits)

lemma history_fetchTranslation:
  "history (fst (fetchTranslation e c s w)) = history s"
  by (simp add: fetchTranslation_def case_prod_beta history_translateText)

lemma history_handleSearch:
  "history (fst (handleSearch e c s w))
     = (if trim w = [] then history s else newHistory (history c) w)"
  by (simp add: handleSearch_def case_prod_beta history_fetchTranslation history_fetchRelatedWords
      history_fetchDefinitions history_addToHistory)

lemma trim_letters:
  "trim ''Hello'' \<noteq> []" "trim ''WORLD'' \<noteq> []" "trim ''hello'' \<noteq> []"
  by code_simp+

lemma handleSearch_fresh_history:
  "history (searches e initial_state [''Hello'', ''WORLD'', ''hello'']) = [''hello'', ''world'']"
proof -
  have h: "history initial_state = []"
    by (simp add: initial_state_def)
  have n: "newHistory (newHistory (newHistory [] ''Hello'') ''WORLD'') ''hello'' = [''hello'', ''world'']"
    by code_simp
  show ?thesis
    by (simp add: searches_def history_handleSearch trim_letters h n)
qed

text \<open>
  C5. The history should hold every searched word once, latest first: "Hello", "WORLD",
  "hello" should leave "hello", "world". With the \<open>handleSearch\<close> of \<open>README.md\<close> they do
  (\<open>handleSearch_fresh_history\<close>). With the one of \<open>src/App.tsx\<close>, which keeps the
  \<open>addToHistory\<close> of the render that built it, each search starts again from the history
  of that render: after the three searches on a fresh mount the history is "hello" alone.
\<close>

theorem handleSearch_stale_history:
  "history (searches_memoised e initial_state initial_state [''Hello'', ''WORLD'', ''hello''])
     = [''hello'']"
proof -
  have h: "history initial_state = []"
    by (simp add: initial_state_def)
  have n: "newHistory [] ''hello'' = [''hello'']"
    by code_simp
  show ?thesis
    by (simp add: searches_memoised_def history_handleSearch trim_letters h n)
qed

end
